theory Spec2Isabelle
  imports Complex_Main
begin

section \<open>Data model\<close>

text \<open>
  The scripts work on two-dimensional numpy arrays of shape
  \<open>(num_companies, num_timesteps)\<close>. An array is modelled by its shape and its rows.
  The shape is kept apart from the rows because numpy keeps it too: an array with no
  row still has a number of columns. Cell values are exact reals; a float result that is
  not a number is written \<open>None\<close>.
\<close>

record ndarray2 =
  shape0 :: nat
  shape1 :: nat
  elems :: "real list list"

definition wf2 :: "ndarray2 \<Rightarrow> bool" where
  "wf2 a = (length (elems a) = shape0 a \<and> list_all (\<lambda>r. length r = shape1 a) (elems a))"

datatype error = ValueError | IndexError | ZeroDivisionError

text \<open>\<open>a.T\<close>: the transposed array, row \<open>k\<close> of which is column \<open>k\<close> of \<open>a\<close>.\<close>

definition transpose2 :: "ndarray2 \<Rightarrow> ndarray2" where
  "transpose2 a =
     \<lparr>shape0 = shape1 a, shape1 = shape0 a,
      elems = map (\<lambda>k. map (\<lambda>r. r ! k) (elems a)) [0..<shape1 a]\<rparr>"

text \<open>
  Python slicing \<open>xs[a:b]\<close> with integer bounds: a negative bound counts from the end,
  and both bounds are clamped to the length. \<open>xs[a:]\<close> stops at the length.
\<close>

definition norm_idx :: "int \<Rightarrow> nat \<Rightarrow> nat" where
  "norm_idx k n = (if k < 0 then nat (int n + k) else min (nat k) n)"

definition slice :: "int \<Rightarrow> int \<Rightarrow> 'a list \<Rightarrow> 'a list" where
  "slice a b xs =
     (let lo = norm_idx a (length xs); hi = norm_idx b (length xs)
      in take (hi - lo) (drop lo xs))"

definition slice_from :: "int \<Rightarrow> 'a list \<Rightarrow> 'a list" where
  "slice_from a xs = drop (norm_idx a (length xs)) xs"

text \<open>\<open>a[:, lo:hi]\<close>: the same slice of every row.\<close>

definition slice_cols :: "int \<Rightarrow> int \<Rightarrow> ndarray2 \<Rightarrow> ndarray2" where
  "slice_cols a b p =
     \<lparr>shape0 = shape0 p,
      shape1 = norm_idx b (shape1 p) - norm_idx a (shape1 p),
      elems = map (slice a b) (elems p)\<rparr>"

text \<open>
  \<open>a[r, c]\<close> with integer indices: an index outside \<open>[-n, n)\<close> raises IndexError,
  a negative one counts from the end.
\<close>

definition getitem2 :: "ndarray2 \<Rightarrow> int \<Rightarrow> int \<Rightarrow> error + real" where
  "getitem2 a r c =
     (let n = int (shape0 a); m = int (shape1 a)
      in if r < - n \<or> n \<le> r \<or> c < - m \<or> m \<le> c then Inl IndexError
         else Inr (elems a ! nat (if r < 0 then n + r else r)
                           ! nat (if c < 0 then m + c else c)))"

text \<open>\<open>len(a[0])\<close>: the first row must exist.\<close>

definition len_row0 :: "ndarray2 \<Rightarrow> error + nat" where
  "len_row0 a = (if shape0 a = 0 then Inl IndexError else Inr (shape1 a))"

section \<open>utils.py\<close>

subsection \<open>best_return and avg_return\<close>

text \<open>
  \<open>np.max(a, axis=1)\<close>: the maximum of every row; numpy raises ValueError when the
  reduced axis is empty.
\<close>

definition max_axis1 :: "ndarray2 \<Rightarrow> error + real list" where
  "max_axis1 a =
     (if shape1 a = 0 then Inl ValueError else Inr (map (\<lambda>r. Max (set r)) (elems a)))"

text \<open>
  \<open>np.average(a, axis=1)\<close>: the mean of every row. After the means numpy computes
  \<open>a.size / avg.size\<close> with Python's division, which raises ZeroDivisionError when
  there is no row. Over an empty axis the mean divides zero by zero and every entry is
  not a number. The division of a row sum by the row length is numpy's float division,
  written here with the division of the reals; rounding is not modelled, so nothing
  below compares a mean with a maximum: the float mean of 0.1, 0.1, 0.1 already lies
  above 0.1.
\<close>

definition average_axis1 :: "ndarray2 \<Rightarrow> error + real option list" where
  "average_axis1 a =
     (if shape0 a = 0 then Inl ZeroDivisionError
      else if shape1 a = 0 then Inr (map (\<lambda>r. None) (elems a))
      else Inr (map (\<lambda>r. Some (sum_list r / real (shape1 a))) (elems a)))"

text \<open>\<open>np.sum(np.multiply(d, v))\<close> on a vector whose entries may be not a number.\<close>

definition sum_multiply :: "real \<Rightarrow> real option list \<Rightarrow> real option" where
  "sum_multiply d v =
     (if list_all (\<lambda>x. x \<noteq> None) v then Some (sum_list (map (\<lambda>x. d * the x) v)) else None)"

definition best_return :: "ndarray2 \<Rightarrow> real \<Rightarrow> int \<Rightarrow> error + real" where
  "best_return pct_returns daily_investment skip_n_steps =
     (case max_axis1 (transpose2 pct_returns) of
        Inl e \<Rightarrow> Inl e
      | Inr m \<Rightarrow> Inr (sum_list (map (\<lambda>x. daily_investment * x) (slice_from skip_n_steps m))))"

definition avg_return :: "ndarray2 \<Rightarrow> real \<Rightarrow> int \<Rightarrow> error + real option" where
  "avg_return pct_returns daily_investment skip_n_steps =
     (case average_axis1 (transpose2 pct_returns) of
        Inl e \<Rightarrow> Inl e
      | Inr m \<Rightarrow> Inr (sum_multiply daily_investment (slice_from skip_n_steps m)))"

subsection \<open>get_dataset\<close>

datatype dataset = Remaining int | Split ndarray2 ndarray2

definition get_dataset :: "ndarray2 \<Rightarrow> int \<Rightarrow> int \<Rightarrow> int \<Rightarrow> error + dataset" where
  "get_dataset price_data n train_size test_size =
     (let start_point = n * test_size;
          split_point = start_point + train_size;
          final_point = split_point + test_size
      in case len_row0 price_data of
           Inl e \<Rightarrow> Inl e
         | Inr len0 \<Rightarrow>
             if final_point > int len0 then Inr (Remaining (int len0 - start_point))
             else Inr (Split (slice_cols start_point split_point price_data)
                             (slice_cols split_point final_point price_data)))"

text \<open>
  What the specification calls columns \<open>[a, b)\<close> of a matrix: of every row, the cells
  with index \<open>a \<le> k < b\<close>.
\<close>

definition columns :: "nat \<Rightarrow> nat \<Rightarrow> ndarray2 \<Rightarrow> ndarray2" where
  "columns a b p =
     \<lparr>shape0 = shape0 p, shape1 = b - a,
      elems = map (\<lambda>r. map (\<lambda>k. r ! k) [a..<b]) (elems p)\<rparr>"

subsection \<open>profit\<close>

text \<open>
  \<open>np.argmax\<close>: the first index of the maximum; ValueError on an empty vector.
\<close>

fun argmax_from :: "nat \<Rightarrow> real \<Rightarrow> nat \<Rightarrow> real list \<Rightarrow> nat" where
  "argmax_from best bv i [] = best"
| "argmax_from best bv i (x # xs) =
     (if bv < x then argmax_from i x (Suc i) xs else argmax_from best bv (Suc i) xs)"

definition argmax :: "real list \<Rightarrow> error + nat" where
  "argmax xs = (case xs of [] \<Rightarrow> Inl ValueError | x # rest \<Rightarrow> Inr (argmax_from 0 x 1 rest))"

text \<open>
  A float division by zero does not raise in numpy: the quotient is infinite or not a
  number, and so is every sum it enters. \<open>None\<close> stands for such a value.
\<close>

definition prophet_of :: "ndarray2 \<Rightarrow> int \<Rightarrow> int \<Rightarrow> error + real option" where
  "prophet_of truth best_buy i =
     (case getitem2 truth best_buy i of
        Inl e \<Rightarrow> Inl e
      | Inr cur \<Rightarrow>
          (case getitem2 truth (best_buy - 1) i of
             Inl e \<Rightarrow> Inl e
           | Inr prev \<Rightarrow>
               Inr (if prev = 0 then None else Some (100 * (cur - prev) / prev))))"

fun profit_loop :: "ndarray2 \<Rightarrow> ndarray2 \<Rightarrow> nat list \<Rightarrow> real option \<Rightarrow> error + real option" where
  "profit_loop test truth [] tot = Inr tot"
| "profit_loop test truth (i # rest) tot =
     (case argmax (map (\<lambda>r. r ! i) (elems test)) of
        Inl e \<Rightarrow> Inl e
      | Inr best_buy \<Rightarrow>
          (case prophet_of truth (int best_buy) (int i) of
             Inl e \<Rightarrow> Inl e
           | Inr prophet \<Rightarrow>
               profit_loop test truth rest
                 (case (tot, prophet) of (Some s, Some p) \<Rightarrow> Some (s + p) | _ \<Rightarrow> None)))"

definition profit :: "ndarray2 \<Rightarrow> ndarray2 \<Rightarrow> error + real option" where
  "profit test truth =
     (case len_row0 test of
        Inl e \<Rightarrow> Inl e
      | Inr len0 \<Rightarrow> profit_loop test truth [0..<len0] (Some 0))"

text \<open>
  The prophet profit as the specification words it: at every timestep \<open>i\<close>, the percent
  change of \<open>truth\<close> for the entity with the largest \<open>test\<close> value, between timestep
  \<open>i - 1\<close> and timestep \<open>i\<close>. At timestep 0 the previous timestep is read with the
  index \<open>-1\<close>, the last column.
\<close>

definition prophet_spec :: "ndarray2 \<Rightarrow> int \<Rightarrow> int \<Rightarrow> error + real option" where
  "prophet_spec truth b i =
     (case getitem2 truth b i of
        Inl e \<Rightarrow> Inl e
      | Inr cur \<Rightarrow>
          (case getitem2 truth b (i - 1) of
             Inl e \<Rightarrow> Inl e
           | Inr prev \<Rightarrow>
               Inr (if prev = 0 then None else Some (100 * (cur - prev) / prev))))"

fun profit_spec_loop :: "ndarray2 \<Rightarrow> ndarray2 \<Rightarrow> nat list \<Rightarrow> real option \<Rightarrow> error + real option" where
  "profit_spec_loop test truth [] tot = Inr tot"
| "profit_spec_loop test truth (i # rest) tot =
     (case argmax (map (\<lambda>r. r ! i) (elems test)) of
        Inl e \<Rightarrow> Inl e
      | Inr b \<Rightarrow>
          (case prophet_spec truth (int b) (int i) of
             Inl e \<Rightarrow> Inl e
           | Inr prophet \<Rightarrow>
               profit_spec_loop test truth rest
                 (case (tot, prophet) of (Some s, Some p) \<Rightarrow> Some (s + p) | _ \<Rightarrow> None)))"

definition profit_spec :: "ndarray2 \<Rightarrow> ndarray2 \<Rightarrow> error + real option" where
  "profit_spec test truth =
     (case len_row0 test of
        Inl e \<Rightarrow> Inl e
      | Inr len0 \<Rightarrow> profit_spec_loop test truth [0..<len0] (Some 0))"

section \<open>init_temporal_correlations.py\<close>

subsection \<open>The Pearson coefficient\<close>

text \<open>
  Modelled from the spec: \<open>scipy.stats.pearsonr\<close> is a library function, not code of
  the repository. The glossary calls its first result the Pearson correlation
  coefficient of two equal-length sequences, undefined when either sequence has zero
  variance. The model is that coefficient over the reals: the sum of the products of the
  centred values, divided by the product of the norms of the centred sequences. The
  library raises ValueError when the lengths differ or are below 2, and returns not a
  number (\<open>None\<close> here) when either sequence is constant.
\<close>

definition mean_of :: "real list \<Rightarrow> real" where
  "mean_of xs = sum_list xs / real (length xs)"

definition centred :: "real list \<Rightarrow> real list" where
  "centred xs = map (\<lambda>x. x - mean_of xs) xs"

definition dot :: "real list \<Rightarrow> real list \<Rightarrow> real" where
  "dot xs ys = sum_list (map (\<lambda>(x, y). x * y) (zip xs ys))"

definition is_constant :: "real list \<Rightarrow> bool" where
  "is_constant xs = list_all (\<lambda>x. x = hd xs) xs"

definition pearsonr :: "real list \<Rightarrow> real list \<Rightarrow> error + real option" where
  "pearsonr x y =
     (if length x \<noteq> length y then Inl ValueError
      else if length x < 2 then Inl ValueError
      else if is_constant x \<or> is_constant y then Inr None
      else Inr (Some (dot (centred x) (centred y)
                      / (sqrt (dot (centred x) (centred x)) * sqrt (dot (centred y) (centred y))))))"

subsection \<open>The correlation tensor\<close>

text \<open>
  The script is modelled as a function of the loaded array \<open>gt_data\<close> and of the window
  width \<open>corr_size\<close>, which the script fixes at 30. The tensor is a list of
  \<open>num_timesteps - corr_size\<close> matrices, each a list of rows.
\<close>

type_synonym tensor = "real list list list"

definition zeros3 :: "nat \<Rightarrow> nat \<Rightarrow> nat \<Rightarrow> tensor" where
  "zeros3 a b c = replicate a (replicate b (replicate c 0))"

definition shape3 :: "tensor \<Rightarrow> nat \<Rightarrow> nat \<Rightarrow> nat \<Rightarrow> bool" where
  "shape3 corr a b c =
     (length corr = a \<and> list_all (\<lambda>m. length m = b \<and> list_all (\<lambda>r. length r = c) m) corr)"

text \<open>\<open>corr[t][c1][c2] = v\<close>; the loops only produce indices inside the tensor.\<close>

definition set_cell :: "nat \<Rightarrow> nat \<Rightarrow> nat \<Rightarrow> real \<Rightarrow> tensor \<Rightarrow> tensor" where
  "set_cell t c1 c2 v corr = corr[t := (corr ! t)[c1 := (corr ! t ! c1)[c2 := v]]]"

text \<open>\<open>gt_data.T[t:t+corr_size][:,c]\<close>: the window of company \<open>c\<close> starting at \<open>t\<close>.\<close>

definition movements :: "ndarray2 \<Rightarrow> nat \<Rightarrow> nat \<Rightarrow> nat \<Rightarrow> real list" where
  "movements gt_data corr_size t c =
     map (\<lambda>r. r ! c) (slice (int t) (int t + int corr_size) (elems (transpose2 gt_data)))"

definition sentinel :: real where
  "sentinel = 1 / 10 ^ 10"

text \<open>Lines 34 to 38: the coefficient of one pair, with the replacement of not a number.\<close>

definition c1_c2_corr :: "ndarray2 \<Rightarrow> nat \<Rightarrow> nat \<Rightarrow> nat \<Rightarrow> nat \<Rightarrow> error + real" where
  "c1_c2_corr gt_data corr_size t c1 c2 =
     (case pearsonr (movements gt_data corr_size t c1) (movements gt_data corr_size t c2) of
        Inl e \<Rightarrow> Inl e
      | Inr None \<Rightarrow> Inr sentinel
      | Inr (Some r) \<Rightarrow> Inr r)"

fun loop_c2 :: "ndarray2 \<Rightarrow> nat \<Rightarrow> nat \<Rightarrow> nat \<Rightarrow> nat list \<Rightarrow> tensor \<Rightarrow> error + tensor" where
  "loop_c2 gt_data corr_size t c1 [] corr = Inr corr"
| "loop_c2 gt_data corr_size t c1 (c2 # rest) corr =
     (case c1_c2_corr gt_data corr_size t c1 c2 of
        Inl e \<Rightarrow> Inl e
      | Inr v \<Rightarrow> loop_c2 gt_data corr_size t c1 rest (set_cell t c1 c2 v corr))"

fun loop_c1 :: "ndarray2 \<Rightarrow> nat \<Rightarrow> nat \<Rightarrow> nat list \<Rightarrow> tensor \<Rightarrow> error + tensor" where
  "loop_c1 gt_data corr_size t [] corr = Inr corr"
| "loop_c1 gt_data corr_size t (c1 # rest) corr =
     (case loop_c2 gt_data corr_size t c1 [1..<shape0 gt_data - 1] corr of
        Inl e \<Rightarrow> Inl e
      | Inr corr' \<Rightarrow> loop_c1 gt_data corr_size t rest corr')"

fun loop_t :: "ndarray2 \<Rightarrow> nat \<Rightarrow> nat list \<Rightarrow> tensor \<Rightarrow> error + tensor" where
  "loop_t gt_data corr_size [] corr = Inr corr"
| "loop_t gt_data corr_size (t # rest) corr =
     (case loop_c1 gt_data corr_size t [0..<shape0 gt_data] corr of
        Inl e \<Rightarrow> Inl e
      | Inr corr' \<Rightarrow> loop_t gt_data corr_size rest corr')"

text \<open>
  \<open>np.zeros\<close> raises ValueError on a negative dimension, that is when the window is
  wider than the series.
\<close>

definition corr_tensor :: "ndarray2 \<Rightarrow> nat \<Rightarrow> error + tensor" where
  "corr_tensor gt_data corr_size =
     (let num_companies = shape0 gt_data; num_timesteps = shape1 gt_data
      in if num_timesteps < corr_size then Inl ValueError
         else loop_t gt_data corr_size [0..<num_timesteps - corr_size]
                (zeros3 (num_timesteps - corr_size) num_companies num_companies))"

section \<open>Concrete inputs\<close>

text \<open>The return matrix of the specification's \<open>bestReturn\<close> example.\<close>

definition returns_2x2 :: ndarray2 where
  "returns_2x2 = \<lparr>shape0 = 2, shape1 = 2, elems = [[1, 2], [3, 1]]\<rparr>"

definition single_row :: ndarray2 where
  "single_row = \<lparr>shape0 = 1, shape1 = 3, elems = [[1, - 2, 3]]\<rparr>"

text \<open>One entity and no timestep.\<close>

definition no_timestep :: ndarray2 where
  "no_timestep = \<lparr>shape0 = 1, shape1 = 0, elems = [[]]\<rparr>"

definition prices_2x5 :: ndarray2 where
  "prices_2x5 = \<lparr>shape0 = 2, shape1 = 5, elems = [[1, 2, 3, 4, 5], [6, 7, 8, 9, 10]]\<rparr>"

definition no_company :: ndarray2 where
  "no_company = \<lparr>shape0 = 0, shape1 = 3, elems = []\<rparr>"

definition prices_1x3 :: ndarray2 where
  "prices_1x3 = \<lparr>shape0 = 1, shape1 = 3, elems = [[1, 2, 3]]\<rparr>"

text \<open>
  Two companies whose prices do not move, the second scoring higher in \<open>test\<close> at both
  timesteps.
\<close>

definition flat_test :: ndarray2 where
  "flat_test = \<lparr>shape0 = 2, shape1 = 2, elems = [[1, 1], [5, 5]]\<rparr>"

definition flat_truth :: ndarray2 where
  "flat_truth = \<lparr>shape0 = 2, shape1 = 2, elems = [[40, 40], [10, 10]]\<rparr>"

text \<open>The return series of the specification's correlation example, with its tensor.\<close>

definition example_returns :: ndarray2 where
  "example_returns =
     \<lparr>shape0 = 3, shape1 = 4, elems = [[1, 0, 1, 0], [1, 0, 1, 0], [0, 1, 0, 1]]\<rparr>"

definition example_corr :: tensor where
  "example_corr =
     [[[0, 1, 0], [0, 1, 0], [0, - 1, 0]],
      [[0, 1, 0], [0, 1, 0], [0, - 1, 0]]]"

text \<open>A series whose first company does not move in the first window.\<close>

definition still_returns :: ndarray2 where
  "still_returns = \<lparr>shape0 = 3, shape1 = 3, elems = [[1, 1, 1], [1, 0, 1], [0, 1, 0]]\<rparr>"

definition still_corr :: tensor where
  "still_corr = [[[0, 1 / 10 ^ 10, 0], [0, 1, 0], [0, - 1, 0]]]"

section \<open>Properties of utils.py\<close>

subsection \<open>Auxiliary facts\<close>

lemma best_return_total:
  assumes "0 < shape0 a"
  shows "best_return a d s =
           Inr (sum_list (map (\<lambda>x. d * x)
                  (slice_from s (map (\<lambda>r. Max (set r)) (elems (transpose2 a))))))"
  using assms by (simp add: best_return_def max_axis1_def transpose2_def)

lemma avg_return_total:
  assumes "0 < shape0 a" "0 < shape1 a"
  shows "avg_return a d s =
           Inr (Some (sum_list (map (\<lambda>x. d * x)
                   (slice_from s (map (\<lambda>r. sum_list r / real (shape0 a)) (elems (transpose2 a)))))))"
  using assms
  by (simp add: avg_return_def average_axis1_def sum_multiply_def transpose2_def slice_from_def
      list_all_iff drop_map comp_def set_drop_subset)

lemma slice_nth:
  assumes "0 \<le> a" "a \<le> b" "b \<le> int (length xs)"
  shows "slice a b xs = map (\<lambda>k. xs ! k) [nat a..<nat b]"
proof -
  have "take (nat b - nat a) (drop (nat a) xs) = map (\<lambda>k. xs ! k) [nat a..<nat b]"
    using assms by (intro nth_equalityI) (auto simp: nat_le_iff)
  moreover have "norm_idx a (length xs) = nat a" "norm_idx b (length xs) = nat b"
    using assms by (auto simp: norm_idx_def)
  ultimately show ?thesis by (simp add: slice_def)
qed

lemma slice_cols_columns:
  assumes "wf2 p" "0 \<le> a" "a \<le> b" "b \<le> int (shape1 p)"
  shows "slice_cols a b p = columns (nat a) (nat b) p"
proof -
  have "map (slice a b) (elems p) = map (\<lambda>r. map (\<lambda>k. r ! k) [nat a..<nat b]) (elems p)"
  proof (rule map_cong[OF refl])
    fix r assume "r \<in> set (elems p)"
    then have "length r = shape1 p" using assms(1) by (simp add: wf2_def list_all_iff)
    then show "slice a b r = map (\<lambda>k. r ! k) [nat a..<nat b]"
      using assms by (simp add: slice_nth)
  qed
  moreover have "norm_idx a (shape1 p) = nat a" "norm_idx b (shape1 p) = nat b"
    using assms by (auto simp: norm_idx_def)
  ultimately show ?thesis by (simp add: slice_cols_def columns_def)
qed

lemma col_set:
  "set (map (\<lambda>r. r ! k) xs) = (\<lambda>e. xs ! e ! k) ` {..<length xs}"
proof -
  have "set xs = (\<lambda>e. xs ! e) ` {..<length xs}"
    by (auto simp: in_set_conv_nth)
  then have "(\<lambda>r. r ! k) ` set xs = (\<lambda>r. r ! k) ` ((\<lambda>e. xs ! e) ` {..<length xs})"
    by simp
  then show ?thesis by (simp add: image_image)
qed

subsection \<open>The claims on the return metrics\<close>

text \<open>
  Claim C9. For a return matrix with at least one entity and a nonnegative
  \<open>skip_n_steps\<close>, \<open>best_return\<close> is the sum, over the timesteps from \<open>skip_n_steps\<close> on, of
  the daily investment times the largest return of that timestep. The hypotheses are the
  ones under which the claim's words have a meaning: a maximum across entities needs an
  entity, and dropping the first \<open>skip_n_steps\<close> needs a count. The specification's
  example, \<open>[[1,2],[3,1]]\<close> with investment 100 and no skipped step, gives 500; it is
  the witness.
\<close>

theorem best_return_sum:
  assumes "wf2 a" "0 < shape0 a" "0 \<le> s"
  shows "best_return a d s =
     Inr (\<Sum>k = nat s..<shape1 a. d * Max ((\<lambda>e. elems a ! e ! k) ` {..<shape0 a}))"
proof -
  let ?f = "\<lambda>k. d * Max ((\<lambda>e. elems a ! e ! k) ` {..<shape0 a})"
  have len: "length (elems a) = shape0 a" using assms(1) by (simp add: wf2_def)
  have n: "norm_idx s (shape1 a) = min (nat s) (shape1 a)"
    using assms(3) by (simp add: norm_idx_def)
  have "best_return a d s = Inr (sum_list (map ?f [min (nat s) (shape1 a)..<shape1 a]))"
    using assms(2)
    by (simp add: best_return_def max_axis1_def transpose2_def slice_from_def n drop_map
        comp_def col_set len del: set_map)
  also have "sum_list (map ?f [min (nat s) (shape1 a)..<shape1 a])
               = sum ?f {min (nat s) (shape1 a)..<shape1 a}"
    by (simp add: interv_sum_list_conv_sum_set_nat)
  also have "{min (nat s) (shape1 a)..<shape1 a} = {nat s..<shape1 a}"
    by auto
  finally show ?thesis .
qed

theorem best_return_sum_witness:
  "wf2 returns_2x2 \<and> 0 < shape0 returns_2x2 \<and> (0::int) \<le> 0
   \<and> best_return returns_2x2 100 0 = Inr (100 * (3 + 2))
   \<and> best_return returns_2x2 100 0 = Inr 500"
proof -
  have h: "wf2 returns_2x2" "0 < shape0 returns_2x2" "(0::int) \<le> 0"
    by (simp_all add: wf2_def returns_2x2_def)
  have s: "{..<(2::nat)} = {0, Suc 0}" "{0..<(2::nat)} = {0, Suc 0}" by auto
  have "best_return returns_2x2 100 0 = Inr 500"
    using best_return_sum[OF h, of 100] by (simp add: returns_2x2_def s)
  then show ?thesis using h by simp
qed

text \<open>
  Claim C10, as stated, fails on a matrix with one entity and no timestep: \<open>best_return\<close>
  sums over nothing and returns 0, while \<open>np.average\<close> in \<open>avg_return\<close> raises
  ZeroDivisionError, so the two do not return the same value.
\<close>

theorem single_entity_counterexample:
  "best_return no_timestep 100 0 = Inr 0
   \<and> avg_return no_timestep 100 0 = Inl ZeroDivisionError"
  by (simp add: no_timestep_def best_return_def max_axis1_def avg_return_def average_axis1_def
      transpose2_def slice_from_def)

text \<open>
  Claim C10, amended. For a return matrix with exactly one entity and at least one
  timestep, \<open>best_return\<close> and \<open>avg_return\<close> return the same value, for every daily
  investment and every \<open>skip_n_steps\<close>. With one entity the maximum of a timestep is its
  only cell, and so is the mean, the cell divided by 1.
\<close>

theorem single_entity_returns_agree:
  assumes "wf2 a" "shape0 a = 1" "0 < shape1 a"
  shows "\<exists>v. best_return a d s = Inr v \<and> avg_return a d s = Inr (Some v)"
proof -
  have pos: "0 < shape0 a" using assms(2) by simp
  have eq: "map (\<lambda>r. Max (set r)) (elems (transpose2 a))
              = map (\<lambda>r. sum_list r / real (shape0 a)) (elems (transpose2 a))"
  proof (rule map_cong[OF refl])
    fix r assume "r \<in> set (elems (transpose2 a))"
    then have "length r = 1" using assms by (auto simp: transpose2_def wf2_def)
    then obtain x where "r = [x]" by (cases r) auto
    then show "Max (set r) = sum_list r / real (shape0 a)" using assms(2) by simp
  qed
  show ?thesis
    unfolding best_return_total[OF pos] avg_return_total[OF pos assms(3)] eq by simp
qed

theorem single_entity_returns_agree_witness:
  "wf2 single_row \<and> shape0 single_row = 1 \<and> 0 < shape1 single_row
   \<and> best_return single_row 100 1 = Inr 100
   \<and> avg_return single_row 100 1 = Inr (Some 100)"
proof -
  have h: "wf2 single_row" "shape0 single_row = 1" "0 < shape1 single_row"
    by (simp_all add: wf2_def single_row_def)
  have e: "best_return single_row 100 1 = Inr 100" by code_simp
  from single_entity_returns_agree[OF h, of 100 1] e
  have "avg_return single_row 100 1 = Inr (Some 100)" by auto
  then show ?thesis using h e by simp
qed

subsection \<open>The claim on get_dataset\<close>

text \<open>
  Claim C7, as stated, fails on two kinds of input. An array with no row makes
  \<open>len(price_data[0])\<close> raise IndexError, where the claim promises a split or an integer
  and no exception. A negative \<open>train_size\<close> passes the length test and reaches the
  slices, where the negative bound counts from the end: with three columns, fold 0,
  \<open>train_size = -1\<close> and \<open>test_size = 2\<close>, the training part is the columns 0 and 1, not
  the empty range \<open>[0, -1)\<close>.
\<close>

theorem get_dataset_counterexample:
  "get_dataset no_company 0 2 1 = Inl IndexError
   \<and> get_dataset prices_1x3 0 (- 1) 2
       = Inr (Split \<lparr>shape0 = 1, shape1 = 2, elems = [[1, 2]]\<rparr>
                    \<lparr>shape0 = 1, shape1 = 0, elems = [[]]\<rparr>)"
  by (simp add: get_dataset_def len_row0_def slice_cols_def slice_def norm_idx_def
      no_company_def prices_1x3_def)

text \<open>
  Claim C7, amended. For a price series with at least one entity, a fold index
  \<open>n \<ge> 0\<close> and nonnegative \<open>train_size\<close> and \<open>test_size\<close>: when
  \<open>n * test_size + train_size + test_size\<close> is at most the number of timesteps,
  \<open>get_dataset\<close> returns the pair of the columns
  \<open>[n * test_size, n * test_size + train_size)\<close> and the columns
  \<open>[n * test_size + train_size, n * test_size + train_size + test_size)\<close>; otherwise it
  returns the integer \<open>num_timesteps - n * test_size\<close>. It raises in neither case, and
  since a pair is not an integer it returns the pair exactly when the bound holds.
\<close>

theorem get_dataset_split:
  assumes "wf2 p" "0 < shape0 p" "0 \<le> n" "0 \<le> train_size" "0 \<le> test_size"
  shows "get_dataset p n train_size test_size =
     (if n * test_size + train_size + test_size \<le> int (shape1 p)
      then Inr (Split (columns (nat (n * test_size)) (nat (n * test_size + train_size)) p)
                      (columns (nat (n * test_size + train_size))
                               (nat (n * test_size + train_size + test_size)) p))
      else Inr (Remaining (int (shape1 p) - n * test_size)))"
proof -
  have s: "0 \<le> n * test_size" using assms by simp
  show ?thesis
  proof (cases "n * test_size + train_size + test_size \<le> int (shape1 p)")
    case True
    have "slice_cols (n * test_size) (n * test_size + train_size) p
            = columns (nat (n * test_size)) (nat (n * test_size + train_size)) p"
      using assms s True by (intro slice_cols_columns) auto
    moreover have "slice_cols (n * test_size + train_size)
                     (n * test_size + train_size + test_size) p
            = columns (nat (n * test_size + train_size))
                (nat (n * test_size + train_size + test_size)) p"
      using assms s True by (intro slice_cols_columns) auto
    ultimately show ?thesis using True assms(2)
      by (simp add: get_dataset_def len_row0_def Let_def)
  next
    case False
    then show ?thesis using assms(2)
      by (simp add: get_dataset_def len_row0_def Let_def)
  qed
qed

theorem get_dataset_split_witness:
  "wf2 prices_2x5 \<and> 0 < shape0 prices_2x5 \<and> (0::int) \<le> 1 \<and> (0::int) \<le> 2
   \<and> get_dataset prices_2x5 1 2 1
       = Inr (Split \<lparr>shape0 = 2, shape1 = 2, elems = [[2, 3], [7, 8]]\<rparr>
                    \<lparr>shape0 = 2, shape1 = 1, elems = [[4], [9]]\<rparr>)
   \<and> get_dataset prices_2x5 2 2 2 = Inr (Remaining 1)"
proof -
  have h: "wf2 prices_2x5" "0 < shape0 prices_2x5"
    by (simp_all add: wf2_def prices_2x5_def)
  have u: "[Suc 0..<3] = [Suc 0, 2]" "[3..<4] = [3::nat]" by (simp_all add: upt_rec)
  have a: "get_dataset prices_2x5 1 2 1
       = Inr (Split \<lparr>shape0 = 2, shape1 = 2, elems = [[2, 3], [7, 8]]\<rparr>
                    \<lparr>shape0 = 2, shape1 = 1, elems = [[4], [9]]\<rparr>)"
    using get_dataset_split[OF h, of 1 2 1] by (simp add: columns_def prices_2x5_def u)
  have b: "get_dataset prices_2x5 2 2 2 = Inr (Remaining 1)"
    using get_dataset_split[OF h, of 2 2 2] by (simp add: prices_2x5_def)
  show ?thesis using h a b by simp
qed

subsection \<open>The claim on profit\<close>

text \<open>
  Claim C1 says that \<open>profit\<close> adds, for every timestep \<open>i\<close>, 100 times the percent
  change of \<open>truth\<close> for the best entity \<open>b\<close> between timestep \<open>i - 1\<close> and timestep
  \<open>i\<close>. The code subtracts 1 from the entity index instead of the timestep index: it
  compares \<open>truth[b, i]\<close> with \<open>truth[b - 1, i]\<close>, the price of another company at the
  same timestep. With two companies whose prices stay at 40 and 10, the second being the
  best buy at both timesteps, the percent change over time is 0 at every timestep, under
  any reading of the first one, and the code returns \<open>2 * 100 * (10 - 40) / 40 = -150\<close>.
\<close>

theorem profit_failing_input:
  "profit flat_test flat_truth = Inr (Some (- 150))
   \<and> profit_spec flat_test flat_truth = Inr (Some 0)"
  by code_simp

section \<open>Properties of init_temporal_correlations.py\<close>

subsection \<open>Writing one cell\<close>

lemma shape3_nth:
  assumes "shape3 c A B C" "t < A" "i < B"
  shows "length c = A" "length (c ! t) = B" "length (c ! t ! i) = C"
  using assms by (auto simp: shape3_def list_all_length)

lemma shape3_set_cell:
  assumes "shape3 c A B C"
  shows "shape3 (set_cell t i j v c) A B C"
proof (cases "t < length c \<and> i < length (c ! t)")
  case False
  then have "set_cell t i j v c = c"
    by (auto simp: set_cell_def list_update_beyond not_less)
  then show ?thesis using assms by simp
next
  case True
  have rows: "\<And>n na. n < length c \<Longrightarrow> length (c ! n) = B
                \<and> (na < B \<longrightarrow> length (c ! n ! na) = C)"
    using assms by (auto simp: shape3_def list_all_length)
  have "length (set_cell t i j v c ! n) = B
         \<and> (\<forall>na<B. length (set_cell t i j v c ! n ! na) = C)" if n: "n < length c" for n
  proof (cases "n = t")
    case False
    then show ?thesis using rows[OF n] n by (simp add: set_cell_def)
  next
    case eq: True
    have "length (c ! t ! i) = C" using rows[of t i] True by simp
    then show ?thesis using rows[of t] True eq
      by (auto simp: set_cell_def nth_list_update)
  qed
  moreover have "length (set_cell t i j v c) = length c" by (simp add: set_cell_def)
  moreover have "length c = A" using assms by (simp add: shape3_def)
  ultimately show ?thesis by (auto simp: shape3_def list_all_length)
qed

lemma nth_set_cell:
  assumes "shape3 c A B C" "t < A" "i < B" "j < C"
  shows "set_cell t i j v c ! t' ! i' ! j' =
           (if t' = t \<and> i' = i \<and> j' = j then v else c ! t' ! i' ! j')"
  using shape3_nth[OF assms(1-3)] assms(2-4)
  by (auto simp: set_cell_def nth_list_update)

subsection \<open>The Pearson coefficient lies between -1 and 1\<close>

lemma dot_Cons: "dot (x # xs) (y # ys) = x * y + dot xs ys"
  by (simp add: dot_def)

lemma dot_Nil: "dot [] ys = 0" "dot xs [] = 0"
  by (simp_all add: dot_def)

lemma dot_self_nonneg: "0 \<le> dot xs xs"
  by (induction xs) (simp_all add: dot_Nil dot_Cons)

lemma cauchy_step:
  fixes x y S A B :: real
  assumes "S\<^sup>2 \<le> A * B" "0 \<le> A" "0 \<le> B"
  shows "(x * y + S)\<^sup>2 \<le> (x * x + A) * (y * y + B)"
proof -
  have "\<bar>S\<bar> \<le> sqrt A * sqrt B"
    using assms by (metis real_sqrt_abs real_sqrt_le_iff real_sqrt_mult)
  then have "(\<bar>x\<bar> * \<bar>y\<bar>) * \<bar>S\<bar> \<le> (\<bar>x\<bar> * \<bar>y\<bar>) * (sqrt A * sqrt B)"
    by (intro mult_left_mono) simp_all
  then have "\<bar>x * y * S\<bar> \<le> (\<bar>x\<bar> * sqrt B) * (\<bar>y\<bar> * sqrt A)"
    by (simp add: abs_mult mult_ac)
  moreover have "2 * ((\<bar>x\<bar> * sqrt B) * (\<bar>y\<bar> * sqrt A)) \<le> (\<bar>x\<bar> * sqrt B)\<^sup>2 + (\<bar>y\<bar> * sqrt A)\<^sup>2"
    using sum_squares_bound[of "\<bar>x\<bar> * sqrt B" "\<bar>y\<bar> * sqrt A"] by (simp add: mult.assoc)
  moreover have "(\<bar>x\<bar> * sqrt B)\<^sup>2 = x * x * B" "(\<bar>y\<bar> * sqrt A)\<^sup>2 = y * y * A"
    using assms by (simp_all add: power_mult_distrib power2_eq_square[of x] power2_eq_square[of y])
  ultimately have "2 * (x * y * S) \<le> x * x * B + y * y * A"
    by linarith
  moreover have "(x * x + A) * (y * y + B) - (x * y + S)\<^sup>2
                  = (x * x * B + y * y * A - 2 * (x * y * S)) + (A * B - S\<^sup>2)"
    by (simp add: power2_eq_square algebra_simps)
  ultimately show ?thesis using assms(1) by linarith
qed

lemma cauchy_schwarz:
  assumes "length xs = length ys"
  shows "(dot xs ys)\<^sup>2 \<le> dot xs xs * dot ys ys"
  using assms
proof (induction xs ys rule: list_induct2)
  case Nil
  then show ?case by (simp add: dot_Nil)
next
  case (Cons x xs y ys)
  then show ?case
    by (simp add: dot_Cons cauchy_step dot_self_nonneg)
qed

lemma cauchy_abs:
  assumes "length xs = length ys"
  shows "\<bar>dot xs ys\<bar> \<le> sqrt (dot xs xs) * sqrt (dot ys ys)"
proof -
  have "sqrt ((dot xs ys)\<^sup>2) \<le> sqrt (dot xs xs * dot ys ys)"
    using cauchy_schwarz[OF assms] by (simp only: real_sqrt_le_iff)
  then show ?thesis by (simp add: real_sqrt_mult)
qed

lemma quotient_bound:
  fixes a d :: real
  assumes "\<bar>a\<bar> \<le> d"
  shows "- 1 \<le> a / d \<and> a / d \<le> 1"
proof (cases "d = 0")
  case True
  then show ?thesis by simp
next
  case False
  then have "0 < d" using assms by linarith
  then show ?thesis using assms by (simp add: pos_le_divide_eq pos_divide_le_eq abs_le_iff)
qed

lemma pearsonr_bound:
  assumes "pearsonr x y = Inr (Some r)"
  shows "- 1 \<le> r \<and> r \<le> 1"
proof -
  from assms have len: "length x = length y"
    and r: "r = dot (centred x) (centred y)
                / (sqrt (dot (centred x) (centred x)) * sqrt (dot (centred y) (centred y)))"
    by (auto simp: pearsonr_def split: if_splits)
  have "length (centred x) = length (centred y)" using len by (simp add: centred_def)
  from quotient_bound[OF cauchy_abs[OF this]] r show ?thesis by simp
qed

subsection \<open>What the loops leave in the tensor\<close>

lemma loop_c2_spec:
  assumes "loop_c2 gt W t i js c = Inr c'" "shape3 c A B C" "t < A" "i < B"
    "\<forall>j\<in>set js. j < C"
  shows "shape3 c' A B C
       \<and> (\<forall>t' i' j'. \<not> (t' = t \<and> i' = i \<and> j' \<in> set js) \<longrightarrow> c' ! t' ! i' ! j' = c ! t' ! i' ! j')
       \<and> (\<forall>j\<in>set js. c1_c2_corr gt W t i j = Inr (c' ! t ! i ! j))"
  using assms
proof (induction js arbitrary: c)
  case Nil
  then show ?case by simp
next
  case (Cons j0 js)
  from Cons.prems(1) obtain v where v: "c1_c2_corr gt W t i j0 = Inr v"
    and rest: "loop_c2 gt W t i js (set_cell t i j0 v c) = Inr c'"
    by (auto split: sum.splits)
  let ?c1 = "set_cell t i j0 v c"
  have j0: "j0 < C" and js: "\<forall>j\<in>set js. j < C" using Cons.prems(5) by auto
  have sh1: "shape3 ?c1 A B C" using Cons.prems(2) by (rule shape3_set_cell)
  note ih = Cons.IH[OF rest sh1 Cons.prems(3,4) js]
  note upd = nth_set_cell[OF Cons.prems(2,3,4) j0]
  have a: "shape3 c' A B C" using ih by simp
  have b: "\<forall>t' i' j'. \<not> (t' = t \<and> i' = i \<and> j' \<in> set (j0 # js)) \<longrightarrow> c' ! t' ! i' ! j' = c ! t' ! i' ! j'"
  proof (intro allI impI)
    fix t' i' j' assume n: "\<not> (t' = t \<and> i' = i \<and> j' \<in> set (j0 # js))"
    then have "c' ! t' ! i' ! j' = ?c1 ! t' ! i' ! j'" using ih by auto
    also have "\<dots> = c ! t' ! i' ! j'" using n by (auto simp: upd)
    finally show "c' ! t' ! i' ! j' = c ! t' ! i' ! j'" .
  qed
  have d: "\<forall>j\<in>set (j0 # js). c1_c2_corr gt W t i j = Inr (c' ! t ! i ! j)"
  proof
    fix j assume "j \<in> set (j0 # js)"
    show "c1_c2_corr gt W t i j = Inr (c' ! t ! i ! j)"
    proof (cases "j \<in> set js")
      case True
      then show ?thesis using ih by simp
    next
      case False
      then have "j = j0" using \<open>j \<in> set (j0 # js)\<close> by simp
      moreover have "c' ! t ! i ! j0 = ?c1 ! t ! i ! j0" using ih False \<open>j = j0\<close> by auto
      ultimately show ?thesis using v by (simp add: upd)
    qed
  qed
  from a b d show ?case by blast
qed

lemma loop_c1_spec:
  assumes "loop_c1 gt W t is c = Inr c'" "shape3 c A B C" "t < A"
    "\<forall>i\<in>set is. i < B" "shape0 gt - 1 \<le> C"
  shows "shape3 c' A B C
       \<and> (\<forall>t' i' j'. \<not> (t' = t \<and> i' \<in> set is \<and> 1 \<le> j' \<and> j' < shape0 gt - 1)
              \<longrightarrow> c' ! t' ! i' ! j' = c ! t' ! i' ! j')
       \<and> (\<forall>i\<in>set is. \<forall>j. 1 \<le> j \<and> j < shape0 gt - 1 \<longrightarrow> c1_c2_corr gt W t i j = Inr (c' ! t ! i ! j))"
  using assms
proof (induction "is" arbitrary: c)
  case Nil
  then show ?case by simp
next
  case (Cons i0 "is")
  from Cons.prems(1) obtain c1 where c1: "loop_c2 gt W t i0 [1..<shape0 gt - 1] c = Inr c1"
    and rest: "loop_c1 gt W t is c1 = Inr c'"
    by (auto split: sum.splits)
  have i0: "i0 < B" and "is": "\<forall>i\<in>set is. i < B" using Cons.prems(4) by auto
  have js: "\<forall>j\<in>set [1..<shape0 gt - 1]. j < C" using Cons.prems(5) by auto
  note s2 = loop_c2_spec[OF c1 Cons.prems(2,3) i0 js]
  have sh1: "shape3 c1 A B C" using s2 by simp
  note ih = Cons.IH[OF rest sh1 Cons.prems(3) "is" Cons.prems(5)]
  have a: "shape3 c' A B C" using ih by simp
  have b: "\<forall>t' i' j'. \<not> (t' = t \<and> i' \<in> set (i0 # is) \<and> 1 \<le> j' \<and> j' < shape0 gt - 1)
              \<longrightarrow> c' ! t' ! i' ! j' = c ! t' ! i' ! j'"
  proof (intro allI impI)
    fix t' i' j' assume n: "\<not> (t' = t \<and> i' \<in> set (i0 # is) \<and> 1 \<le> j' \<and> j' < shape0 gt - 1)"
    then have "c' ! t' ! i' ! j' = c1 ! t' ! i' ! j'" using ih by auto
    also have "\<dots> = c ! t' ! i' ! j'" using n s2 by auto
    finally show "c' ! t' ! i' ! j' = c ! t' ! i' ! j'" .
  qed
  have d: "\<forall>i\<in>set (i0 # is). \<forall>j. 1 \<le> j \<and> j < shape0 gt - 1 \<longrightarrow> c1_c2_corr gt W t i j = Inr (c' ! t ! i ! j)"
  proof (intro ballI allI impI)
    fix i j assume i: "i \<in> set (i0 # is)" and j: "1 \<le> j \<and> j < shape0 gt - 1"
    show "c1_c2_corr gt W t i j = Inr (c' ! t ! i ! j)"
    proof (cases "i \<in> set is")
      case True
      then show ?thesis using ih j by simp
    next
      case False
      then have e: "i = i0" using i by simp
      have "c' ! t ! i0 ! j = c1 ! t ! i0 ! j" using ih False e by auto
      moreover have "c1_c2_corr gt W t i0 j = Inr (c1 ! t ! i0 ! j)" using s2 j by auto
      ultimately show ?thesis using e by simp
    qed
  qed
  from a b d show ?case by blast
qed

lemma loop_t_spec:
  assumes "loop_t gt W ts c = Inr c'" "shape3 c A B C"
    "\<forall>t\<in>set ts. t < A" "shape0 gt \<le> B" "shape0 gt - 1 \<le> C"
  shows "shape3 c' A B C
       \<and> (\<forall>t' i' j'. \<not> (t' \<in> set ts \<and> i' < shape0 gt \<and> 1 \<le> j' \<and> j' < shape0 gt - 1)
              \<longrightarrow> c' ! t' ! i' ! j' = c ! t' ! i' ! j')
       \<and> (\<forall>t\<in>set ts. \<forall>i j. i < shape0 gt \<and> 1 \<le> j \<and> j < shape0 gt - 1
              \<longrightarrow> c1_c2_corr gt W t i j = Inr (c' ! t ! i ! j))"
  using assms
proof (induction ts arbitrary: c)
  case Nil
  then show ?case by simp
next
  case (Cons t0 ts)
  from Cons.prems(1) obtain c1 where c1: "loop_c1 gt W t0 [0..<shape0 gt] c = Inr c1"
    and rest: "loop_t gt W ts c1 = Inr c'"
    by (auto split: sum.splits)
  have t0: "t0 < A" and ts: "\<forall>t\<in>set ts. t < A" using Cons.prems(3) by auto
  have "is": "\<forall>i\<in>set [0..<shape0 gt]. i < B" using Cons.prems(4) by auto
  note s1 = loop_c1_spec[OF c1 Cons.prems(2) t0 "is" Cons.prems(5)]
  have sh1: "shape3 c1 A B C" using s1 by simp
  note ih = Cons.IH[OF rest sh1 ts Cons.prems(4,5)]
  have a: "shape3 c' A B C" using ih by simp
  have b: "\<forall>t' i' j'. \<not> (t' \<in> set (t0 # ts) \<and> i' < shape0 gt \<and> 1 \<le> j' \<and> j' < shape0 gt - 1)
              \<longrightarrow> c' ! t' ! i' ! j' = c ! t' ! i' ! j'"
  proof (intro allI impI)
    fix t' i' j' assume n: "\<not> (t' \<in> set (t0 # ts) \<and> i' < shape0 gt \<and> 1 \<le> j' \<and> j' < shape0 gt - 1)"
    then have "c' ! t' ! i' ! j' = c1 ! t' ! i' ! j'" using ih by auto
    also have "\<dots> = c ! t' ! i' ! j'" using n s1 by auto
    finally show "c' ! t' ! i' ! j' = c ! t' ! i' ! j'" .
  qed
  have d: "\<forall>t\<in>set (t0 # ts). \<forall>i j. i < shape0 gt \<and> 1 \<le> j \<and> j < shape0 gt - 1
              \<longrightarrow> c1_c2_corr gt W t i j = Inr (c' ! t ! i ! j)"
  proof (intro ballI allI impI)
    fix t i j assume t: "t \<in> set (t0 # ts)" and ij: "i < shape0 gt \<and> 1 \<le> j \<and> j < shape0 gt - 1"
    show "c1_c2_corr gt W t i j = Inr (c' ! t ! i ! j)"
    proof (cases "t \<in> set ts")
      case True
      then show ?thesis using ih ij by simp
    next
      case False
      then have e: "t = t0" using t by simp
      have "c' ! t0 ! i ! j = c1 ! t0 ! i ! j" using ih False e by auto
      moreover have "c1_c2_corr gt W t0 i j = Inr (c1 ! t0 ! i ! j)" using s1 ij by auto
      ultimately show ?thesis using e by simp
    qed
  qed
  from a b d show ?case by blast
qed

lemma length_movements:
  assumes "t + W \<le> shape1 gt"
  shows "length (movements gt W t c) = W"
proof -
  have "norm_idx (int t) (shape1 gt) = t" "norm_idx (int t + int W) (shape1 gt) = t + W"
    using assms by (auto simp: norm_idx_def)
  then show ?thesis using assms
    by (simp add: movements_def slice_def transpose2_def)
qed

lemma c1_c2_corr_value:
  assumes "t + W \<le> shape1 gt" "2 \<le> W"
  shows "c1_c2_corr gt W t i j =
           (case pearsonr (movements gt W t i) (movements gt W t j) of
              Inr (Some r) \<Rightarrow> Inr r | _ \<Rightarrow> Inr sentinel)"
  using assms length_movements[OF assms(1)]
  by (auto simp: c1_c2_corr_def pearsonr_def)

lemma c1_c2_corr_total:
  assumes "t + W \<le> shape1 gt" "2 \<le> W"
  shows "\<exists>v. c1_c2_corr gt W t i j = Inr v"
  unfolding c1_c2_corr_value[OF assms]
  by (auto split: sum.splits option.splits)

lemma loop_c2_total:
  assumes "\<And>j. \<exists>v. c1_c2_corr gt W t i j = Inr v"
  shows "\<exists>c'. loop_c2 gt W t i js c = Inr c'"
proof (induction js arbitrary: c)
  case Nil
  then show ?case by simp
next
  case (Cons j js)
  obtain v where "c1_c2_corr gt W t i j = Inr v" using assms by blast
  then show ?case using Cons.IH by simp
qed

lemma loop_c1_total:
  assumes "\<And>i j. \<exists>v. c1_c2_corr gt W t i j = Inr v"
  shows "\<exists>c'. loop_c1 gt W t is c = Inr c'"
proof (induction "is" arbitrary: c)
  case Nil
  then show ?case by simp
next
  case (Cons i "is")
  obtain c1 where "loop_c2 gt W t i [1..<shape0 gt - 1] c = Inr c1"
    using loop_c2_total[of gt W t i] assms by blast
  then show ?case using Cons.IH by simp
qed

lemma loop_t_total:
  assumes "\<And>t i j. t \<in> set ts \<Longrightarrow> \<exists>v. c1_c2_corr gt W t i j = Inr v"
  shows "\<exists>c'. loop_t gt W ts c = Inr c'"
  using assms
proof (induction ts arbitrary: c)
  case Nil
  then show ?case by simp
next
  case (Cons t ts)
  obtain c1 where "loop_c1 gt W t [0..<shape0 gt] c = Inr c1"
    using loop_c1_total[of gt W t] Cons.prems by (meson list.set_intros(1))
  moreover have "\<exists>c'. loop_t gt W ts c1 = Inr c'"
    using Cons.IH Cons.prems by (meson list.set_intros(2))
  ultimately show ?case by simp
qed

lemma shape3_zeros3: "shape3 (zeros3 a b c) a b c"
  by (simp add: shape3_def zeros3_def list_all_length)

lemma nth_zeros3: "t < a \<Longrightarrow> i < b \<Longrightarrow> j < c \<Longrightarrow> zeros3 a b c ! t ! i ! j = 0"
  by (simp add: zeros3_def)

lemma corr_tensor_total:
  assumes "2 \<le> W" "W \<le> shape1 gt"
  shows "\<exists>corr. corr_tensor gt W = Inr corr"
proof -
  have "\<And>t i j. t \<in> set [0..<shape1 gt - W] \<Longrightarrow> \<exists>v. c1_c2_corr gt W t i j = Inr v"
    using assms by (intro c1_c2_corr_total) auto
  from loop_t_total[of "[0..<shape1 gt - W]" gt W, OF this] show ?thesis
    using assms by (simp add: corr_tensor_def Let_def)
qed

lemma corr_tensor_cells:
  assumes "corr_tensor gt W = Inr corr"
  shows "shape3 corr (shape1 gt - W) (shape0 gt) (shape0 gt)"
    and "\<And>t i j. t < shape1 gt - W \<Longrightarrow> i < shape0 gt \<Longrightarrow> 1 \<le> j \<Longrightarrow> j < shape0 gt - 1
           \<Longrightarrow> c1_c2_corr gt W t i j = Inr (corr ! t ! i ! j)"
    and "\<And>t i j. t < shape1 gt - W \<Longrightarrow> i < shape0 gt \<Longrightarrow> j < shape0 gt
           \<Longrightarrow> \<not> (1 \<le> j \<and> j < shape0 gt - 1) \<Longrightarrow> corr ! t ! i ! j = 0"
proof -
  let ?A = "shape1 gt - W" and ?N = "shape0 gt"
  let ?z = "zeros3 ?A ?N ?N"
  from assms have run: "loop_t gt W [0..<?A] ?z = Inr corr"
    by (simp add: corr_tensor_def Let_def split: if_splits)
  have ts: "\<forall>t\<in>set [0..<?A]. t < ?A" by simp
  note sp = loop_t_spec[OF run shape3_zeros3 ts order_refl diff_le_self]
  show "shape3 corr ?A ?N ?N" using sp by simp
  show "c1_c2_corr gt W t i j = Inr (corr ! t ! i ! j)"
    if "t < ?A" "i < ?N" "1 \<le> j" "j < ?N - 1" for t i j
    using sp that by simp
  show "corr ! t ! i ! j = 0"
    if h: "t < ?A" "i < ?N" "j < ?N" and n: "\<not> (1 \<le> j \<and> j < ?N - 1)" for t i j
  proof -
    have "corr ! t ! i ! j = ?z ! t ! i ! j" using sp n by blast
    then show ?thesis using h by (simp add: nth_zeros3)
  qed
qed

lemma c1_c2_corr_constant:
  assumes "c1_c2_corr gt W t i j = Inr v"
    "is_constant (movements gt W t i) \<or> is_constant (movements gt W t j)"
  shows "v = sentinel"
  using assms by (auto simp: c1_c2_corr_def pearsonr_def split: if_splits)

lemma c1_c2_corr_pearson:
  assumes "c1_c2_corr gt W t i j = Inr v"
    "\<not> is_constant (movements gt W t i)" "\<not> is_constant (movements gt W t j)"
  shows "pearsonr (movements gt W t i) (movements gt W t j) = Inr (Some v)"
  using assms by (auto simp: c1_c2_corr_def pearsonr_def split: if_splits)

lemma movements_window:
  assumes "wf2 gt" "t + W \<le> shape1 gt" "c < shape0 gt"
  shows "movements gt W t c = map (\<lambda>k. elems gt ! c ! k) [t..<t + W]"
proof -
  let ?rows = "elems (transpose2 gt)"
  have len: "length ?rows = shape1 gt" by (simp add: transpose2_def)
  have "slice (int t) (int t + int W) ?rows = map (\<lambda>k. ?rows ! k) [t..<t + W]"
    using slice_nth[of "int t" "int t + int W" ?rows] assms(2) len
    by (simp add: nat_add_distrib)
  moreover have "?rows ! k ! c = elems gt ! c ! k" if "k \<in> set [t..<t + W]" for k
    using that assms by (simp add: transpose2_def wf2_def)
  ultimately show ?thesis by (simp add: movements_def)
qed

subsection \<open>Two runs of the script\<close>

lemma upt_small:
  "[0..<(2::nat)] = [0, Suc 0]" "[0..<(3::nat)] = [0, Suc 0, 2]" "[Suc 0..<2] = [Suc 0]"
  "[0..<(4::nat)] = [0, Suc 0, 2, 3]" "[0..<Suc 0] = [0]"
  by (simp_all add: upt_rec)

lemma example_movements:
  "movements example_returns 2 0 0 = [1, 0]"
  "movements example_returns 2 0 (Suc 0) = [1, 0]"
  "movements example_returns 2 0 2 = [0, 1]"
  "movements example_returns 2 (Suc 0) 0 = [0, 1]"
  "movements example_returns 2 (Suc 0) (Suc 0) = [0, 1]"
  "movements example_returns 2 (Suc 0) 2 = [1, 0]"
  by (simp_all add: movements_def example_returns_def transpose2_def slice_def norm_idx_def
      upt_small)

lemma still_movements:
  "movements still_returns 2 0 0 = [1, 1]"
  "movements still_returns 2 0 (Suc 0) = [1, 0]"
  "movements still_returns 2 0 2 = [0, 1]"
  by (simp_all add: movements_def still_returns_def transpose2_def slice_def norm_idx_def
      upt_small)

lemma pearsonr_small:
  "pearsonr [1, 0] [1, 0] = Inr (Some 1)" "pearsonr [0, 1] [1, 0] = Inr (Some (- 1))"
  "pearsonr [0, 1] [0, 1] = Inr (Some 1)" "pearsonr [1, 0] [0, 1] = Inr (Some (- 1))"
  "pearsonr [1, 1] [1, 0] = Inr None"
  by (simp_all add: pearsonr_def is_constant_def centred_def mean_of_def dot_def)

lemma zeros3_small:
  "zeros3 2 3 3 = [[[0, 0, 0], [0, 0, 0], [0, 0, 0]], [[0, 0, 0], [0, 0, 0], [0, 0, 0]]]"
  "zeros3 (Suc 0) 3 3 = [[[0, 0, 0], [0, 0, 0], [0, 0, 0]]]"
  by (simp_all add: zeros3_def numeral_2_eq_2 numeral_3_eq_3)

lemma corr_tensor_example: "corr_tensor example_returns 2 = Inr example_corr"
proof -
  have s: "shape0 example_returns = 3" "shape1 example_returns = 4"
    by (simp_all add: example_returns_def)
  show ?thesis
    by (simp add: corr_tensor_def zeros3_small c1_c2_corr_def example_movements pearsonr_small
        set_cell_def upt_small s example_corr_def)
qed

lemma corr_tensor_still: "corr_tensor still_returns 2 = Inr still_corr"
proof -
  have s: "shape0 still_returns = 3" "shape1 still_returns = 3"
    by (simp_all add: still_returns_def)
  show ?thesis
    by (simp add: corr_tensor_def zeros3_small c1_c2_corr_def still_movements pearsonr_small
        set_cell_def upt_small s still_corr_def sentinel_def)
qed

subsection \<open>The claims on the correlation tensor\<close>

text \<open>
  In the theorems below the first conjunct says that the script runs to the end: it does
  when the window holds at least two timesteps, as the specification requires of
  \<open>windowSize\<close> and as the script's 30 does, and is no wider than the series. The second
  conjunct is about the tensor \<open>corr\<close> that a finished run leaves, for any window width.
\<close>

text \<open>
  Claim C2, as stated, fails: the diagonal is not skipped. The inner loop runs over
  every \<open>c2\<close> from 1 to \<open>num_companies - 2\<close>, also when \<open>c2 = c1\<close>. On the series of the
  specification's example, with a window of 2, the cell \<open>[0][1][1]\<close> holds 1.
\<close>

theorem diagonal_counterexample:
  "corr_tensor example_returns 2 = Inr example_corr \<and> example_corr ! 0 ! 1 ! 1 = 1"
  using corr_tensor_example by (simp add: example_corr_def)

text \<open>
  Claim C2, amended. For every valid start timestep \<open>t\<close>, the diagonal cells
  \<open>[t][0][0]\<close> and \<open>[t][num_companies - 1][num_companies - 1]\<close> keep the zero-fill
  value 0: they are never computed or set. A diagonal cell \<open>[t][i][i]\<close> with
  \<open>1 \<le> i < num_companies - 1\<close> is computed and set like every other cell: it holds
  the coefficient that \<open>pearsonr\<close> returns for the window of entity \<open>i\<close> with itself, or
  the sentinel \<open>1e-10\<close> when that window is constant.
\<close>

theorem diagonal_cells:
  "(2 \<le> W \<and> W < shape1 gt \<longrightarrow> (\<exists>c. corr_tensor gt W = Inr c))
   \<and> (corr_tensor gt W = Inr corr \<and> t < shape1 gt - W \<and> i < shape0 gt \<longrightarrow>
        (if 1 \<le> i \<and> i < shape0 gt - 1
         then (if is_constant (movements gt W t i)
               then corr ! t ! i ! i = 1 / 10 ^ 10
               else pearsonr (movements gt W t i) (movements gt W t i)
                      = Inr (Some (corr ! t ! i ! i)))
         else corr ! t ! i ! i = 0))"
proof (intro conjI impI)
  assume "2 \<le> W \<and> W < shape1 gt"
  then show "\<exists>c. corr_tensor gt W = Inr c" using corr_tensor_total[of W gt] by simp
next
  assume h: "corr_tensor gt W = Inr corr \<and> t < shape1 gt - W \<and> i < shape0 gt"
  show "if 1 \<le> i \<and> i < shape0 gt - 1
         then (if is_constant (movements gt W t i)
               then corr ! t ! i ! i = 1 / 10 ^ 10
               else pearsonr (movements gt W t i) (movements gt W t i)
                      = Inr (Some (corr ! t ! i ! i)))
         else corr ! t ! i ! i = 0"
  proof (cases "1 \<le> i \<and> i < shape0 gt - 1")
    case False
    then have "corr ! t ! i ! i = 0"
      using corr_tensor_cells(3)[of gt W corr t i i] h by simp
    then show ?thesis using False by auto
  next
    case True
    then have v: "c1_c2_corr gt W t i i = Inr (corr ! t ! i ! i)"
      using corr_tensor_cells(2)[of gt W corr t i i] h by simp
    show ?thesis
    proof (cases "is_constant (movements gt W t i)")
      case c: True
      then show ?thesis using c1_c2_corr_constant[OF v] True by (simp add: sentinel_def)
    next
      case c: False
      from c1_c2_corr_pearson[OF v c c] show ?thesis using True c by simp
    qed
  qed
qed

theorem diagonal_cells_witness:
  "(2::nat) \<le> 2 \<and> 2 < shape1 example_returns
   \<and> corr_tensor example_returns 2 = Inr example_corr
   \<and> 1 < shape1 example_returns - 2 \<and> 1 < shape0 example_returns - 1
   \<and> \<not> is_constant (movements example_returns 2 1 1)
   \<and> pearsonr (movements example_returns 2 1 1) (movements example_returns 2 1 1)
       = Inr (Some (example_corr ! 1 ! 1 ! 1))
   \<and> example_corr ! 1 ! 0 ! 0 = 0 \<and> example_corr ! 1 ! 2 ! 2 = 0"
proof -
  have h: "corr_tensor example_returns 2 = Inr example_corr" by (rule corr_tensor_example)
  have s: "shape0 example_returns = 3" "shape1 example_returns = 4"
    by (simp_all add: example_returns_def)
  have n: "\<not> is_constant (movements example_returns 2 1 1)"
    by (simp add: example_movements is_constant_def)
  have "pearsonr (movements example_returns 2 1 1) (movements example_returns 2 1 1)
          = Inr (Some (example_corr ! 1 ! 1 ! 1))"
    using diagonal_cells[of 2 example_returns example_corr 1 1] h s n by simp
  moreover have "example_corr ! 1 ! 0 ! 0 = 0"
    using diagonal_cells[of 2 example_returns example_corr 1 0] h s by simp
  moreover have "example_corr ! 1 ! 2 ! 2 = 0"
    using diagonal_cells[of 2 example_returns example_corr 1 2] h s by simp
  ultimately show ?thesis using h s n by simp
qed

text \<open>
  Claim C3. Coefficients are computed only for \<open>c1\<close> in \<open>[0, num_companies)\<close> and
  \<open>c2\<close> in \<open>[1, num_companies - 1)\<close>: every cell in that range holds the value
  computed for its pair, and every cell outside it keeps the zero-fill value 0, in
  particular \<open>[t][i][0]\<close> and \<open>[t][i][num_companies - 1]\<close> for every valid \<open>t\<close> and
  every \<open>i\<close>.
\<close>

theorem border_columns_zero:
  "(2 \<le> W \<and> W \<le> shape1 gt \<longrightarrow> (\<exists>c. corr_tensor gt W = Inr c))
   \<and> (corr_tensor gt W = Inr corr \<and> t < shape1 gt - W \<and> i < shape0 gt \<longrightarrow>
        corr ! t ! i ! 0 = 0 \<and> corr ! t ! i ! (shape0 gt - 1) = 0
        \<and> (\<forall>j < shape0 gt.
              if 1 \<le> j \<and> j < shape0 gt - 1
              then c1_c2_corr gt W t i j = Inr (corr ! t ! i ! j)
              else corr ! t ! i ! j = 0))"
proof (intro conjI impI)
  assume "2 \<le> W \<and> W \<le> shape1 gt"
  then show "\<exists>c. corr_tensor gt W = Inr c" using corr_tensor_total[of W gt] by simp
next
  assume h: "corr_tensor gt W = Inr corr \<and> t < shape1 gt - W \<and> i < shape0 gt"
  then show "corr ! t ! i ! 0 = 0"
    using corr_tensor_cells(3)[of gt W corr t i 0] by simp
  from h show "corr ! t ! i ! (shape0 gt - 1) = 0"
    using corr_tensor_cells(3)[of gt W corr t i "shape0 gt - 1"] by simp
  from h show "\<forall>j < shape0 gt.
              if 1 \<le> j \<and> j < shape0 gt - 1
              then c1_c2_corr gt W t i j = Inr (corr ! t ! i ! j)
              else corr ! t ! i ! j = 0"
    using corr_tensor_cells(2)[of gt W corr t i] corr_tensor_cells(3)[of gt W corr t i]
    by simp
qed

theorem border_columns_zero_witness:
  "(2::nat) \<le> 2 \<and> 2 \<le> shape1 example_returns
   \<and> corr_tensor example_returns 2 = Inr example_corr
   \<and> 0 < shape1 example_returns - 2 \<and> 2 < shape0 example_returns
   \<and> example_corr ! 0 ! 2 ! 0 = 0 \<and> example_corr ! 0 ! 2 ! (shape0 example_returns - 1) = 0"
proof -
  have h: "corr_tensor example_returns 2 = Inr example_corr" by (rule corr_tensor_example)
  have s: "shape0 example_returns = 3" "shape1 example_returns = 4"
    by (simp_all add: example_returns_def)
  have "example_corr ! 0 ! 2 ! 0 = 0 \<and> example_corr ! 0 ! 2 ! (shape0 example_returns - 1) = 0"
    using border_columns_zero[of 2 example_returns example_corr 0 2] h s by simp
  then show ?thesis using h s by simp
qed

text \<open>
  Claim C4. In every computed cell (valid \<open>t\<close>, any \<open>i\<close>, \<open>j\<close> in
  \<open>[1, num_companies - 1)\<close>) for which one of the two windows is constant, so that the
  Pearson coefficient is not a number, the stored value is exactly the sentinel
  \<open>1e-10\<close>. The run does not stop with an error for it.
\<close>

theorem constant_window_sentinel:
  "(2 \<le> W \<and> W \<le> shape1 gt \<longrightarrow> (\<exists>c. corr_tensor gt W = Inr c))
   \<and> (corr_tensor gt W = Inr corr \<and> t < shape1 gt - W \<and> i < shape0 gt
        \<and> 1 \<le> j \<and> j < shape0 gt - 1
        \<and> (is_constant (movements gt W t i) \<or> is_constant (movements gt W t j)) \<longrightarrow>
        pearsonr (movements gt W t i) (movements gt W t j) = Inr None
        \<and> corr ! t ! i ! j = 1 / 10 ^ 10)"
proof (intro conjI impI)
  assume "2 \<le> W \<and> W \<le> shape1 gt"
  then show "\<exists>c. corr_tensor gt W = Inr c" using corr_tensor_total[of W gt] by simp
next
  assume h: "corr_tensor gt W = Inr corr \<and> t < shape1 gt - W \<and> i < shape0 gt
        \<and> 1 \<le> j \<and> j < shape0 gt - 1
        \<and> (is_constant (movements gt W t i) \<or> is_constant (movements gt W t j))"
  then have v: "c1_c2_corr gt W t i j = Inr (corr ! t ! i ! j)"
    using corr_tensor_cells(2)[of gt W corr t i j] by simp
  from v h show "pearsonr (movements gt W t i) (movements gt W t j) = Inr None"
    by (auto simp: c1_c2_corr_def pearsonr_def split: if_splits)
  from c1_c2_corr_constant[OF v] h show "corr ! t ! i ! j = 1 / 10 ^ 10"
    by (simp add: sentinel_def)
qed

theorem constant_window_sentinel_witness:
  "(2::nat) \<le> 2 \<and> 2 \<le> shape1 still_returns
   \<and> corr_tensor still_returns 2 = Inr still_corr
   \<and> 0 < shape1 still_returns - 2 \<and> 0 < shape0 still_returns \<and> 1 < shape0 still_returns - 1
   \<and> is_constant (movements still_returns 2 0 0)
   \<and> still_corr ! 0 ! 0 ! 1 = 1 / 10 ^ 10"
proof -
  have h: "corr_tensor still_returns 2 = Inr still_corr" by (rule corr_tensor_still)
  have s: "shape0 still_returns = 3" "shape1 still_returns = 3"
    by (simp_all add: still_returns_def)
  have n: "is_constant (movements still_returns 2 0 0)"
    by (simp add: still_movements is_constant_def)
  have "still_corr ! 0 ! 0 ! 1 = 1 / 10 ^ 10"
    using constant_window_sentinel[of 2 still_returns still_corr 0 0 1] h s n by simp
  then show ?thesis using h s n by simp
qed

text \<open>
  Claim C5. For a return series of shape \<open>(num_companies, num_timesteps)\<close> and a window
  narrower than the series, the tensor has shape
  \<open>(num_timesteps - corr_size, num_companies, num_companies)\<close>.
\<close>

theorem corr_tensor_shape:
  "(2 \<le> W \<and> W < shape1 gt \<longrightarrow> (\<exists>c. corr_tensor gt W = Inr c))
   \<and> (corr_tensor gt W = Inr corr \<longrightarrow>
        length corr = shape1 gt - W
        \<and> (\<forall>m \<in> set corr. length m = shape0 gt \<and> (\<forall>r \<in> set m. length r = shape0 gt)))"
proof (intro conjI impI)
  assume "2 \<le> W \<and> W < shape1 gt"
  then show "\<exists>c. corr_tensor gt W = Inr c" using corr_tensor_total[of W gt] by simp
next
  assume h: "corr_tensor gt W = Inr corr"
  from corr_tensor_cells(1)[OF h] show "length corr = shape1 gt - W"
    by (simp add: shape3_def)
  from corr_tensor_cells(1)[OF h]
  show "\<forall>m \<in> set corr. length m = shape0 gt \<and> (\<forall>r \<in> set m. length r = shape0 gt)"
    by (simp add: shape3_def list_all_iff)
qed

theorem corr_tensor_shape_witness:
  "(2::nat) \<le> 2 \<and> 2 < shape1 example_returns
   \<and> corr_tensor example_returns 2 = Inr example_corr
   \<and> length example_corr = shape1 example_returns - 2
   \<and> map length example_corr = [shape0 example_returns, shape0 example_returns]
   \<and> map (map length) example_corr = [[3, 3, 3], [3, 3, 3]]"
proof -
  have h: "corr_tensor example_returns 2 = Inr example_corr" by (rule corr_tensor_example)
  have s: "shape0 example_returns = 3" "shape1 example_returns = 4"
    by (simp_all add: example_returns_def)
  have "length example_corr = shape1 example_returns - 2"
    using corr_tensor_shape[of 2 example_returns example_corr] h by simp
  then show ?thesis using h s by (simp add: example_corr_def)
qed

text \<open>
  Claim C6. For every valid start timestep \<open>t\<close> and every computed pair \<open>(i, j)\<close> with
  \<open>i \<noteq> j\<close>, if neither window is constant then the stored value lies in \<open>[-1, 1]\<close>. The
  coefficient is the exact Pearson coefficient over the reals, and the bound is the
  Cauchy-Schwarz inequality.
\<close>

theorem coefficient_in_range:
  "(2 \<le> W \<and> W \<le> shape1 gt \<longrightarrow> (\<exists>c. corr_tensor gt W = Inr c))
   \<and> (corr_tensor gt W = Inr corr \<and> t < shape1 gt - W \<and> i < shape0 gt
        \<and> 1 \<le> j \<and> j < shape0 gt - 1 \<and> i \<noteq> j
        \<and> \<not> is_constant (movements gt W t i) \<and> \<not> is_constant (movements gt W t j) \<longrightarrow>
        pearsonr (movements gt W t i) (movements gt W t j) = Inr (Some (corr ! t ! i ! j))
        \<and> - 1 \<le> corr ! t ! i ! j \<and> corr ! t ! i ! j \<le> 1)"
proof (intro conjI impI)
  assume "2 \<le> W \<and> W \<le> shape1 gt"
  then show "\<exists>c. corr_tensor gt W = Inr c" using corr_tensor_total[of W gt] by simp
next
  assume h: "corr_tensor gt W = Inr corr \<and> t < shape1 gt - W \<and> i < shape0 gt
        \<and> 1 \<le> j \<and> j < shape0 gt - 1 \<and> i \<noteq> j
        \<and> \<not> is_constant (movements gt W t i) \<and> \<not> is_constant (movements gt W t j)"
  then have v: "c1_c2_corr gt W t i j = Inr (corr ! t ! i ! j)"
    using corr_tensor_cells(2)[of gt W corr t i j] by simp
  from h have p: "pearsonr (movements gt W t i) (movements gt W t j)
                    = Inr (Some (corr ! t ! i ! j))"
    by (intro c1_c2_corr_pearson[OF v]) simp_all
  then show "pearsonr (movements gt W t i) (movements gt W t j)
                    = Inr (Some (corr ! t ! i ! j))" .
  from pearsonr_bound[OF p] show "- 1 \<le> corr ! t ! i ! j" "corr ! t ! i ! j \<le> 1"
    by simp_all
qed

theorem coefficient_in_range_witness:
  "(2::nat) \<le> 2 \<and> 2 \<le> shape1 example_returns
   \<and> corr_tensor example_returns 2 = Inr example_corr
   \<and> 0 < shape1 example_returns - 2 \<and> 2 < shape0 example_returns
   \<and> 1 < shape0 example_returns - 1 \<and> (2::nat) \<noteq> 1
   \<and> \<not> is_constant (movements example_returns 2 0 2)
   \<and> \<not> is_constant (movements example_returns 2 0 1)
   \<and> - 1 \<le> example_corr ! 0 ! 2 ! 1 \<and> example_corr ! 0 ! 2 ! 1 \<le> 1"
proof -
  have h: "corr_tensor example_returns 2 = Inr example_corr" by (rule corr_tensor_example)
  have s: "shape0 example_returns = 3" "shape1 example_returns = 4"
    by (simp_all add: example_returns_def)
  have n: "\<not> is_constant (movements example_returns 2 0 2)"
    "\<not> is_constant (movements example_returns 2 0 1)"
    by (simp_all add: example_movements is_constant_def)
  have "- 1 \<le> example_corr ! 0 ! 2 ! 1 \<and> example_corr ! 0 ! 2 ! 1 \<le> 1"
    using coefficient_in_range[of 2 example_returns example_corr 0 2 1] h s n by simp
  then show ?thesis using h s n by simp
qed

end
